theory Spec2Isabelle
  imports Complex_Main
begin

section \<open>The Discrete Hankel Transform of FBPIC\<close>

text \<open>
  This theory embeds the class \<open>DHT\<close> of
  \<^verbatim>\<open>fbpic/fields/spectral_transform/hankel.py\<close>: its constructor
  \<open>__init__\<close> and the two methods \<open>transform\<close> and \<open>inverse_transform\<close>.

  Conventions of the embedding.
  \<^item> A Python \<open>float\<close> and a numpy \<open>float64\<close> are a \<^typ>\<open>real\<close>, a
    \<open>complex128\<close> is a \<^typ>\<open>complex\<close>: rounding, overflow, \<open>inf\<close> and \<open>nan\<close>
    are not modelled. The only arithmetic failure kept is the \<open>ZeroDivisionError\<close> that
    Python raises when a Python scalar is divided by zero.
  \<^item> The orders \<open>p\<close> and \<open>m\<close> are Python integers (\<^typ>\<open>int\<close>); the point counts
    \<open>Nr\<close> and \<open>Nz\<close> are \<^typ>\<open>nat\<close> (a negative count is excluded by the type).
  \<^item> A two-dimensional array is the list of its rows. Memory order (C or Fortran) is
    not part of the value. An array with no row is the empty list, whose number of columns
    reads \<open>0\<close>.
  \<^item> An instance is a record with one optional field per attribute; \<open>None\<close> is an
    attribute that has not been assigned. Every call returns the instance as the call
    leaves it, also when it raises.
  \<^item> What the module imports from other libraries (scipy, numpy.linalg, the CUDA
    helpers) is a parameter, collected in the record \<open>env\<close>.
\<close>

subsection \<open>Exceptions, arrays, the imported routines\<close>

datatype error =
    ValueError string
  | NameError string
  | TypeError string
  | IndexError string
  | AttributeError string
  | ZeroDivisionError
  | LinAlgError

type_synonym 'a mat = "'a list list"

text \<open>\<open>A.shape\<close> of a two-dimensional array.\<close>

definition ncols :: "'a mat \<Rightarrow> nat" where
  "ncols A = (case A of [] \<Rightarrow> 0 | row # _ \<Rightarrow> length row)"

definition shape :: "'a mat \<Rightarrow> nat \<times> nat" where
  "shape A = (length A, ncols A)"

text \<open>
  The imported names.
  \<^item> \<open>cuda_installed\<close>: the flag of \<open>fbpic.cuda_utils\<close>.
  \<^item> \<open>jn n x\<close>: \<open>scipy.special.jn\<close>, the Bessel function of the first kind.
  \<^item> \<open>scipy.special.jn_zeros(n, nt)\<close> either raises or returns an array of \<open>nt\<close>
    values: \<open>jn_zeros_raises n nt\<close> is the exception, if any, and \<open>jn_zero n k\<close> is
    entry \<open>k\<close> of the array.
  \<^item> \<open>linalg_inv\<close>, \<open>linalg_pinv\<close>: \<open>np.linalg.inv\<close> and \<open>np.linalg.pinv\<close>.
  \<^item> \<open>uninit i j\<close>: what the memory returned by \<open>np.empty\<close> holds at \<open>[i, j]\<close>.
  \<^item> \<open>cuda_tpb_bpg_2d\<close>: the launch configuration \<open>(dim_grid, dim_block)\<close> of
    \<open>fbpic.cuda_utils\<close>.
\<close>

record env =
  cuda_installed :: bool
  jn :: "int \<Rightarrow> real \<Rightarrow> real"
  jn_zeros_raises :: "int \<Rightarrow> int \<Rightarrow> error option"
  jn_zero :: "int \<Rightarrow> nat \<Rightarrow> real"
  linalg_inv :: "real mat \<Rightarrow> error + real mat"
  linalg_pinv :: "real mat \<Rightarrow> error + real mat"
  uninit :: "nat \<Rightarrow> nat \<Rightarrow> real"
  cuda_tpb_bpg_2d :: "nat \<Rightarrow> nat \<Rightarrow> (nat \<times> nat) \<times> (nat \<times> nat)"

definition jn_zeros :: "env \<Rightarrow> int \<Rightarrow> int \<Rightarrow> error + real list" where
  "jn_zeros env n nt =
     (case jn_zeros_raises env n nt of
        Some e \<Rightarrow> Inl e
      | None \<Rightarrow> Inr (map (jn_zero env n) [0..<nat nt]))"

definition np_empty :: "env \<Rightarrow> nat \<Rightarrow> nat \<Rightarrow> real mat" where
  "np_empty env rows cols = map (\<lambda>i. map (\<lambda>j. uninit env i j) [0..<cols]) [0..<rows]"

text \<open>
  Assigning a value \<open>V\<close> to a slice of shape \<open>(c, d)\<close>: numpy broadcasts an axis of
  length one and raises \<open>ValueError\<close> on any other mismatch.
\<close>

definition broadcast_to :: "nat \<Rightarrow> nat \<Rightarrow> 'a mat \<Rightarrow> error + 'a mat" where
  "broadcast_to c d V =
     (let a = length V; b = ncols V in
      if (a = c \<or> a = 1) \<and> (b = d \<or> b = 1)
      then Inr (map (\<lambda>i. map (\<lambda>j. V ! (if a = c then i else 0) ! (if b = d then j else 0))
                              [0..<d]) [0..<c])
      else Inl (ValueError ''could not broadcast input array''))"

subsection \<open>Names visible from the module\<close>

text \<open>
  A name that is not a local of a function is looked up in the globals of the module, and
  then among the builtins, none of which is called \<open>N\<close>. Apart from the
  double-underscore names that every module has, lines 12 to 23 of \<^verbatim>\<open>hankel.py\<close>
  bind the names below and no others; the four CUDA names are bound only when
  \<open>cuda_installed\<close> holds.
\<close>

datatype pyval = PyInt int | PyObject

type_synonym namespace = "string \<rightharpoonup> pyval"

definition hankel_globals :: "bool \<Rightarrow> namespace" where
  "hankel_globals cuda =
     map_of ([(''np'', PyObject), (''jn'', PyObject), (''jn_zeros'', PyObject),
              (''cuda_installed'', PyObject)]
             @ (if cuda then [(''cublas'', PyObject), (''cuda'', PyObject),
                              (''cuda_tpb_bpg_2d'', PyObject),
                              (''cuda_copy_2d_to_2d'', PyObject)] else [])
             @ [(''DHT'', PyObject)])"

definition load_global :: "namespace \<Rightarrow> string \<Rightarrow> error + pyval" where
  "load_global g name = (case g name of None \<Rightarrow> Inl (NameError name) | Some v \<Rightarrow> Inr v)"

subsection \<open>The instance\<close>

record dht =
  self_use_cuda :: "bool option"
  self_blas :: "unit option"
  self_d_in :: "complex mat option"
  self_d_out :: "complex mat option"
  self_dim_grid :: "(nat \<times> nat) option"
  self_dim_block :: "(nat \<times> nat) option"
  self_p :: "int option"
  self_m :: "int option"
  self_Nr :: "nat option"
  self_rmax :: "real option"
  self_nu :: "real list option"
  self_r :: "real list option"
  self_invM :: "real mat option"
  self_M :: "real mat option"
  self_d_M :: "complex mat option"
  self_d_invM :: "complex mat option"

definition new_dht :: dht where
  "new_dht = \<lparr> self_use_cuda = None, self_blas = None, self_d_in = None, self_d_out = None,
               self_dim_grid = None, self_dim_block = None, self_p = None, self_m = None,
               self_Nr = None, self_rmax = None, self_nu = None, self_r = None,
               self_invM = None, self_M = None, self_d_M = None, self_d_invM = None \<rparr>"

text \<open>
  What a call of the constructor leaves behind: the lines printed, the instance, and the
  exception raised (\<open>None\<close> when the constructor returns).
\<close>

record outcome =
  stdout :: "string list"
  obj :: dht
  raised :: "error option"

definition raise_in :: "string list \<Rightarrow> dht \<Rightarrow> error \<Rightarrow> outcome" where
  "raise_in out s e = \<lparr> stdout = out, obj = s, raised = Some e \<rparr>"

subsection \<open>The constructor, block by block\<close>

text \<open>Lines 60 to 69: the cuBLAS handle, the two device buffers, the launch configuration.\<close>

definition init_device :: "env \<Rightarrow> nat \<Rightarrow> nat \<Rightarrow> dht \<Rightarrow> dht" where
  "init_device env Nz Nr s =
     (let zero_array = replicate Nz (replicate Nr (0::complex)) in
      s\<lparr> self_blas := Some (),
         self_d_in := Some zero_array,
         self_d_out := Some zero_array,
         self_dim_grid := Some (fst (cuda_tpb_bpg_2d env Nz Nr)),
         self_dim_block := Some (snd (cuda_tpb_bpg_2d env Nz Nr)) \<rparr>)"

text \<open>Lines 82 to 87: the zeros of the Bessel function, \<open>alphas\<close>.\<close>

definition bessel_alphas :: "env \<Rightarrow> int \<Rightarrow> nat \<Rightarrow> error + real list" where
  "bessel_alphas env m Nr =
     (if m \<noteq> 0
      then (case jn_zeros env m (int Nr - 1) of
              Inl e \<Rightarrow> Inl e
            | Inr zs \<Rightarrow> Inr (0 # zs))
      else jn_zeros env m (int Nr))"

text \<open>Line 90: \<open>self.nu = 1./(2*np.pi*rmax) * alphas\<close>.\<close>

definition spectral_grid :: "real \<Rightarrow> real list \<Rightarrow> error + real list" where
  "spectral_grid rmax alphas =
     (if 2 * pi * rmax = 0 then Inl ZeroDivisionError
      else Inr (map (\<lambda>a. 1 / (2 * pi * rmax) * a) alphas))"

text \<open>Line 93: \<open>self.r = (rmax*1./Nr) * ( np.arange(Nr) + 0.5 )\<close>.\<close>

definition spatial_grid :: "real \<Rightarrow> nat \<Rightarrow> error + real list" where
  "spatial_grid rmax Nr =
     (if Nr = 0 then Inl ZeroDivisionError
      else Inr (map (\<lambda>i. (rmax * 1 / real Nr) * (real i + 0.5)) [0..<Nr]))"

text \<open>
  Lines 100 to 115: the inverse matrix. \<open>num\<close> has one row per entry of \<open>nu\<close> and one
  column per entry of \<open>r\<close>; \<open>denom\<close> has one entry per entry of \<open>alphas\<close>. Every
  cell of the buffer allocated by \<open>np.empty((Nr, Nr))\<close> is overwritten: rows \<open>1:\<close> and
  then row \<open>0\<close> when \<open>m \<noteq> 0\<close>, all rows otherwise.
\<close>

definition inverse_matrix ::
  "env \<Rightarrow> int \<Rightarrow> int \<Rightarrow> nat \<Rightarrow> real \<Rightarrow> real list \<Rightarrow> real list \<Rightarrow> real list \<Rightarrow> real mat" where
  "inverse_matrix env p m Nr rmax alphas r nu =
     (let p_denom = (if p = m then p + 1 else p);
          denom = map (\<lambda>a. pi * rmax ^ 2 * (jn env p_denom a) ^ 2) alphas;
          num = map (\<lambda>nu_i. map (\<lambda>r_j. jn env p (2 * pi * r_j * nu_i)) r) nu;
          quot = map2 (\<lambda>row d. map (\<lambda>x. x / d) row) num denom
      in if m \<noteq> 0
         then (if p = m - 1
               then map (\<lambda>r_j. r_j powi (m - 1) * 1 / (pi * rmax powi (m + 1))) r
               else replicate Nr 0) # drop 1 quot
         else quot)"

text \<open>
  Lines 118 to 123: the forward matrix. The size \<open>N\<close> of the buffer is a name that
  \<open>__init__\<close> never assigns, so it is loaded from the globals. The first component of
  the result is the value of \<open>self.M\<close> when the block is left.
\<close>

definition forward_matrix ::
  "namespace \<Rightarrow> env \<Rightarrow> int \<Rightarrow> int \<Rightarrow> real mat \<Rightarrow> real mat option \<times> error option" where
  "forward_matrix g env p m invM =
     (case load_global g ''N'' of
        Inl e \<Rightarrow> (None, Some e)
      | Inr PyObject \<Rightarrow>
          (None, Some (TypeError ''expected a sequence of integers or a single integer''))
      | Inr (PyInt N) \<Rightarrow>
          if N < 0 then (None, Some (ValueError ''negative dimensions are not allowed''))
          else
            let M0 = np_empty env (nat N) (nat N) in
            if m \<noteq> 0 \<and> p \<noteq> m - 1
            then (case linalg_pinv env (drop 1 invM) of
                    Inl e \<Rightarrow> (Some M0, Some e)
                  | Inr P \<Rightarrow>
                     (case broadcast_to (nat N) (nat N - 1) P of
                        Inl e \<Rightarrow> (Some M0, Some e)
                      | Inr P' \<Rightarrow>
                          if N = 0
                          then (Some M0, Some (IndexError ''index 0 is out of bounds''))
                          else (Some (map (\<lambda>row. 0 # row) P'), None)))
            else (case linalg_inv env invM of
                    Inl e \<Rightarrow> (Some M0, Some e)
                  | Inr M \<Rightarrow> (Some M, None)))"

text \<open>Lines 126 to 132: the complex copies of the two matrices on the device.\<close>

definition to_complex :: "real mat \<Rightarrow> complex mat" where
  "to_complex A = map (map complex_of_real) A"

definition copy_to_device :: "dht \<Rightarrow> dht" where
  "copy_to_device s =
     (if self_use_cuda s = Some True
      then s\<lparr> self_d_M := map_option to_complex (self_M s),
              self_d_invM := map_option to_complex (self_invM s) \<rparr>
      else s)"

text \<open>Lines 58 and 59: the two lines printed when the GPU is asked for and not available.\<close>

definition cuda_warning :: "string list" where
  "cuda_warning = [''** Cuda not available for Hankel transform.'',
                   ''** Performing the Hankel transform on the CPU.'']"

text \<open>
  Lines 95 to 132, run once both grids are stored: the inverse matrix, the forward
  matrix, the copies on the device.
\<close>

definition init_matrices ::
  "namespace \<Rightarrow> env \<Rightarrow> int \<Rightarrow> int \<Rightarrow> nat \<Rightarrow> real \<Rightarrow> real list \<Rightarrow> real list \<Rightarrow> real list
     \<Rightarrow> string list \<Rightarrow> dht \<Rightarrow> outcome" where
  "init_matrices g env p m Nr rmax alphas r nu out s5 =
     (let invM = inverse_matrix env p m Nr rmax alphas r nu;
          s6 = s5\<lparr> self_invM := Some invM \<rparr>
      in
      (case forward_matrix g env p m invM of
         (M_attr, Some e) \<Rightarrow> raise_in out (s6\<lparr> self_M := M_attr \<rparr>) e
       | (M_attr, None) \<Rightarrow>
           \<lparr> stdout = out,
             obj = copy_to_device (s6\<lparr> self_M := M_attr \<rparr>),
             raised = None \<rparr>))"

text \<open>The constructor \<open>DHT.__init__(self, p, m, Nr, Nz, rmax, use_cuda)\<close>.\<close>

definition DHT_init ::
  "namespace \<Rightarrow> env \<Rightarrow> int \<Rightarrow> int \<Rightarrow> nat \<Rightarrow> nat \<Rightarrow> real \<Rightarrow> bool \<Rightarrow> outcome" where
  "DHT_init g env p m Nr Nz rmax use_cuda =
     (let s0 = new_dht\<lparr> self_use_cuda := Some use_cuda \<rparr>;
          fallback = (self_use_cuda s0 = Some True \<and> cuda_installed env = False);
          s1 = (if fallback then s0\<lparr> self_use_cuda := Some False \<rparr> else s0);
          out = (if fallback then cuda_warning else []);
          s2 = (if self_use_cuda s1 = Some True then init_device env Nz Nr s1 else s1)
      in
      if m \<notin> set [p - 1, p, p + 1]
      then raise_in out s2 (ValueError ''m must be either p-1, p or p+1'')
      else
        (let s3 = s2\<lparr> self_p := Some p, self_m := Some m,
                      self_Nr := Some Nr, self_rmax := Some rmax \<rparr> in
         (case bessel_alphas env m Nr of
            Inl e \<Rightarrow> raise_in out s3 e
          | Inr alphas \<Rightarrow>
         (case spectral_grid rmax alphas of
            Inl e \<Rightarrow> raise_in out s3 e
          | Inr nu \<Rightarrow>
         (let s4 = s3\<lparr> self_nu := Some nu \<rparr> in
         (case spatial_grid rmax Nr of
            Inl e \<Rightarrow> raise_in out s4 e
          | Inr r \<Rightarrow>
              init_matrices g env p m Nr rmax alphas r nu out (s4\<lparr> self_r := Some r \<rparr>)))))))"

subsection \<open>Matrix products\<close>

text \<open>
  The product of an array with \<open>length B\<close> columns by \<open>B\<close>; \<open>identity n\<close> is
  \<open>np.eye(n)\<close>.
\<close>

definition mat_mul :: "'a::comm_ring_1 mat \<Rightarrow> 'a mat \<Rightarrow> 'a mat" where
  "mat_mul A B =
     map (\<lambda>row. map (\<lambda>j. sum_list (map (\<lambda>l. row ! l * B ! l ! j) [0..<length B]))
                    [0..<ncols B]) A"

definition identity :: "nat \<Rightarrow> 'a::comm_ring_1 mat" where
  "identity n = map (\<lambda>i. map (\<lambda>j. if i = j then 1 else 0) [0..<n]) [0..<n]"

text \<open>All rows of an array have the same length.\<close>

definition rectangular :: "'a mat \<Rightarrow> bool" where
  "rectangular A \<longleftrightarrow> (\<forall>row \<in> set A. length row = ncols A)"

text \<open>
  \<open>np.dot(a, b, out=out)\<close> for a complex \<open>a\<close> and a real \<open>b\<close>: numpy raises
  \<open>ValueError\<close> when the columns of \<open>a\<close> are not as many as the rows of \<open>b\<close>, and
  when \<open>out\<close> has not the shape of the product; otherwise the product is written to
  \<open>out\<close>.
\<close>

definition np_dot :: "complex mat \<Rightarrow> real mat \<Rightarrow> complex mat \<Rightarrow> error + complex mat" where
  "np_dot a b out =
     (if ncols a \<noteq> length b then Inl (ValueError ''shapes not aligned'')
      else if shape out \<noteq> (length a, ncols b)
      then Inl (ValueError ''output array is not acceptable'')
      else Inr (mat_mul a (to_complex b)))"

text \<open>
  Modelled from the spec: \<open>cuda_copy_2d_to_2d\<close> of \<^verbatim>\<open>cuda_methods.py\<close> is not among the
  sources. The specification describes it as the copy between a row-major array and a
  column-major device buffer that keeps every element at its logical position; here it is
  called only on two arrays of the same shape.
\<close>

definition cuda_copy_2d_to_2d :: "complex mat \<Rightarrow> complex mat \<Rightarrow> complex mat" where
  "cuda_copy_2d_to_2d array_in array_out = array_in"

text \<open>
  \<open>blas.gemm('N', 'N', m, n, k, alpha, A, B, beta, C)\<close> of cuBLAS:
  \<open>C := alpha * A * B + beta * C\<close> for an \<open>m \<times> k\<close> array \<open>A\<close>, a \<open>k \<times> n\<close> array
  \<open>B\<close> and an \<open>m \<times> n\<close> array \<open>C\<close>.
\<close>

definition gemm ::
  "nat \<Rightarrow> nat \<Rightarrow> nat \<Rightarrow> complex \<Rightarrow> complex mat \<Rightarrow> complex mat \<Rightarrow> complex \<Rightarrow> complex mat
     \<Rightarrow> complex mat" where
  "gemm m n k alpha A B beta C =
     map (\<lambda>i. map (\<lambda>j. alpha * sum_list (map (\<lambda>l. A ! i ! l * B ! l ! j) [0..<k])
                        + beta * C ! i ! j) [0..<n]) [0..<m]"

subsection \<open>The two transforms\<close>

text \<open>
  What a call of \<open>transform\<close> or \<open>inverse_transform\<close> leaves behind: the instance
  (the GPU path writes its two buffers), the output array of the caller, and the exception
  raised.
\<close>

record call =
  call_obj :: dht
  call_out :: "complex mat"
  call_raised :: "error option"

text \<open>The message of the \<open>ValueError\<close> raised at lines 174 and 203.\<close>

definition shape_message :: string where
  "shape_message =
     ''The shape of F or G is different from the shape chosen at initialization.''"

definition call_fails :: "dht \<Rightarrow> complex mat \<Rightarrow> error \<Rightarrow> call" where
  "call_fails s out e = \<lparr> call_obj = s, call_out = out, call_raised = Some e \<rparr>"

text \<open>
  \<open>transform(self, F, G)\<close>, lines 170 to 185: the product of \<open>F\<close> with \<open>M\<close> is
  stored in \<open>G\<close>.
\<close>

definition transform :: "dht \<Rightarrow> complex mat \<Rightarrow> complex mat \<Rightarrow> call" where
  "transform s F G =
     (case self_use_cuda s of
        None \<Rightarrow> call_fails s G (AttributeError ''use_cuda'')
      | Some True \<Rightarrow>
          (case self_d_in s of
             None \<Rightarrow> call_fails s G (AttributeError ''d_in'')
           | Some d_in \<Rightarrow>
          if shape F \<noteq> shape d_in
          then call_fails s G (ValueError shape_message)
          else
          (case self_d_out s of
             None \<Rightarrow> call_fails s G (AttributeError ''d_out'')
           | Some d_out \<Rightarrow>
          if shape G \<noteq> shape d_out
          then call_fails s G (ValueError shape_message)
          else
          (case self_dim_grid s of
             None \<Rightarrow> call_fails s G (AttributeError ''dim_grid'')
           | Some dim_grid \<Rightarrow>
          (case self_dim_block s of
             None \<Rightarrow> call_fails s G (AttributeError ''dim_block'')
           | Some dim_block \<Rightarrow>
          (let d_in' = cuda_copy_2d_to_2d F d_in;
               s' = s\<lparr> self_d_in := Some d_in' \<rparr>
           in
          (case self_blas s of
             None \<Rightarrow> call_fails s' G (AttributeError ''blas'')
           | Some blas \<Rightarrow>
          (case self_d_M s of
             None \<Rightarrow> call_fails s' G (AttributeError ''d_M'')
           | Some d_M \<Rightarrow>
          (let d_out' = gemm (fst (shape F)) (snd (shape F)) (snd (shape F))
                             1 d_in' d_M 0 d_out;
               s'' = s'\<lparr> self_d_out := Some d_out' \<rparr>
           in \<lparr> call_obj = s'', call_out = cuda_copy_2d_to_2d d_out' G,
                call_raised = None \<rparr>))))))))
      | Some False \<Rightarrow>
          (case self_M s of
             None \<Rightarrow> call_fails s G (AttributeError ''M'')
           | Some M \<Rightarrow>
          (case np_dot F M G of
             Inl e \<Rightarrow> call_fails s G e
           | Inr G' \<Rightarrow> \<lparr> call_obj = s, call_out = G', call_raised = None \<rparr>)))"

text \<open>
  \<open>inverse_transform(self, G, F)\<close>, lines 199 to 214: the product of \<open>G\<close> with
  \<open>invM\<close> is stored in \<open>F\<close>.
\<close>

definition inverse_transform :: "dht \<Rightarrow> complex mat \<Rightarrow> complex mat \<Rightarrow> call" where
  "inverse_transform s G F =
     (case self_use_cuda s of
        None \<Rightarrow> call_fails s F (AttributeError ''use_cuda'')
      | Some True \<Rightarrow>
          (case self_d_in s of
             None \<Rightarrow> call_fails s F (AttributeError ''d_in'')
           | Some d_in \<Rightarrow>
          if shape G \<noteq> shape d_in
          then call_fails s F (ValueError shape_message)
          else
          (case self_d_out s of
             None \<Rightarrow> call_fails s F (AttributeError ''d_out'')
           | Some d_out \<Rightarrow>
          if shape F \<noteq> shape d_out
          then call_fails s F (ValueError shape_message)
          else
          (case self_dim_grid s of
             None \<Rightarrow> call_fails s F (AttributeError ''dim_grid'')
           | Some dim_grid \<Rightarrow>
          (case self_dim_block s of
             None \<Rightarrow> call_fails s F (AttributeError ''dim_block'')
           | Some dim_block \<Rightarrow>
          (let d_in' = cuda_copy_2d_to_2d G d_in;
               s' = s\<lparr> self_d_in := Some d_in' \<rparr>
           in
          (case self_blas s of
             None \<Rightarrow> call_fails s' F (AttributeError ''blas'')
           | Some blas \<Rightarrow>
          (case self_d_invM s of
             None \<Rightarrow> call_fails s' F (AttributeError ''d_invM'')
           | Some d_invM \<Rightarrow>
          (let d_out' = gemm (fst (shape G)) (snd (shape G)) (snd (shape G))
                             1 d_in' d_invM 0 d_out;
               s'' = s'\<lparr> self_d_out := Some d_out' \<rparr>
           in \<lparr> call_obj = s'', call_out = cuda_copy_2d_to_2d d_out' F,
                call_raised = None \<rparr>))))))))
      | Some False \<Rightarrow>
          (case self_invM s of
             None \<Rightarrow> call_fails s F (AttributeError ''invM'')
           | Some invM \<Rightarrow>
          (case np_dot G invM F of
             Inl e \<Rightarrow> call_fails s F e
           | Inr F' \<Rightarrow> \<lparr> call_obj = s, call_out = F', call_raised = None \<rparr>)))"

subsection \<open>A sample environment\<close>

text \<open>
  An environment on which the definitions can be run. The inverse is the exact inverse of
  a matrix with one or two rows, the pseudo-inverse is the exact pseudo-inverse of a matrix
  with at most one row, and \<open>jn_zeros\<close> refuses a count that is not positive. The Bessel function and its zeros are stand-ins with rational values:
  \<open>jn n x = x + 1\<close>, and the zeros are \<open>1, 2, 3, \<dots>\<close>.
\<close>

fun sample_inv :: "real mat \<Rightarrow> error + real mat" where
  "sample_inv [[a]] = (if a = 0 then Inl LinAlgError else Inr [[1 / a]])"
| "sample_inv [[a, b], [c, d]] =
     (if a * d - b * c = 0 then Inl LinAlgError
      else Inr [[d / (a * d - b * c), - b / (a * d - b * c)],
                [- c / (a * d - b * c), a / (a * d - b * c)]])"
| "sample_inv A = Inl LinAlgError"

fun sample_pinv :: "real mat \<Rightarrow> error + real mat" where
  "sample_pinv [] = Inr [[]]"
| "sample_pinv [v] =
     (let n2 = sum_list (map (\<lambda>x. x * x) v)
      in Inr (map (\<lambda>x. [if n2 = 0 then 0 else x / n2]) v))"
| "sample_pinv A = Inl LinAlgError"

definition sample_env :: env where
  "sample_env =
     \<lparr> cuda_installed = False,
       jn = (\<lambda>n x. x + 1),
       jn_zeros_raises = (\<lambda>n nt. if nt \<le> 0 then Some (ValueError ''nt > 0'') else None),
       jn_zero = (\<lambda>n k. real k + 1),
       linalg_inv = sample_inv,
       linalg_pinv = sample_pinv,
       uninit = (\<lambda>i j. 0),
       cuda_tpb_bpg_2d = (\<lambda>Nz Nr. ((Nz, Nr), (1, 1))) \<rparr>"

text \<open>The same environment with a CUDA device.\<close>

definition sample_env_cuda :: env where
  "sample_env_cuda = sample_env\<lparr> cuda_installed := True \<rparr>"

text \<open>The globals of the module with the name \<open>N\<close> bound to an integer in addition.\<close>

definition globals_with_N :: "bool \<Rightarrow> int \<Rightarrow> namespace" where
  "globals_with_N cuda n = (hankel_globals cuda)(''N'' \<mapsto> PyInt n)"

subsection \<open>Valid inputs\<close>

text \<open>
  The input constraints of the constructor: the mode is one of \<open>p-1\<close>, \<open>p\<close>, \<open>p+1\<close>,
  there is at least one point in each direction, and the box has a positive radius.
\<close>

definition valid_input :: "int \<Rightarrow> int \<Rightarrow> nat \<Rightarrow> nat \<Rightarrow> real \<Rightarrow> bool" where
  "valid_input p m Nr Nz rmax \<longleftrightarrow> m \<in> set [p - 1, p, p + 1] \<and> 1 \<le> Nr \<and> 1 \<le> Nz \<and> 0 < rmax"

text \<open>The call of \<open>jn_zeros\<close> that the constructor makes (line 85 or line 87) returns.\<close>

definition zeros_returned :: "env \<Rightarrow> int \<Rightarrow> nat \<Rightarrow> bool" where
  "zeros_returned env m Nr \<longleftrightarrow>
     jn_zeros_raises env m (if m \<noteq> 0 then int Nr - 1 else int Nr) = None"


text \<open>
  What numpy documents of \<open>np.linalg.inv(A)\<close>: when it returns, the result has the
  shape of \<open>A\<close> and its product with \<open>A\<close> is the identity.
\<close>

definition square :: "nat \<Rightarrow> 'a mat \<Rightarrow> bool" where
  "square n A \<longleftrightarrow> length A = n \<and> (\<forall>row \<in> set A. length row = n)"

definition inverts :: "env \<Rightarrow> real mat \<Rightarrow> bool" where
  "inverts env A \<longleftrightarrow>
     (\<forall>B. linalg_inv env A = Inr B \<longrightarrow>
        square (length A) B \<and> mat_mul B A = identity (length A))"

text \<open>
  The arrays of a valid construction in closed form: \<open>alphas\<close>, the two grids and the
  inverse matrix, as lines 82 to 115 compute them when no call raises.
\<close>

definition alphas_of :: "env \<Rightarrow> int \<Rightarrow> nat \<Rightarrow> real list" where
  "alphas_of env m Nr =
     (if m \<noteq> 0 then 0 # map (jn_zero env m) [0..<Nr - 1] else map (jn_zero env m) [0..<Nr])"

definition nu_of :: "env \<Rightarrow> int \<Rightarrow> nat \<Rightarrow> real \<Rightarrow> real list" where
  "nu_of env m Nr rmax = map (\<lambda>a. 1 / (2 * pi * rmax) * a) (alphas_of env m Nr)"

definition r_of :: "nat \<Rightarrow> real \<Rightarrow> real list" where
  "r_of Nr rmax = map (\<lambda>i. (rmax * 1 / real Nr) * (real i + 0.5)) [0..<Nr]"

definition invM_of :: "env \<Rightarrow> int \<Rightarrow> int \<Rightarrow> nat \<Rightarrow> real \<Rightarrow> real mat" where
  "invM_of env p m Nr rmax =
     inverse_matrix env p m Nr rmax (alphas_of env m Nr) (r_of Nr rmax) (nu_of env m Nr rmax)"

section \<open>Properties of the constructor\<close>

lemma hankel_globals_N: "hankel_globals c ''N'' = None"
  by (simp add: hankel_globals_def)

lemma forward_matrix_NameError:
  "forward_matrix (hankel_globals c) env p m invM = (None, Some (NameError ''N''))"
  by (simp add: forward_matrix_def load_global_def hankel_globals_N)

lemma raise_in_sel [simp]:
  "raised (raise_in out s e) = Some e" "obj (raise_in out s e) = s" "stdout (raise_in out s e) = out"
  by (simp_all add: raise_in_def)

lemma copy_to_device_sel [simp]:
  "self_use_cuda (copy_to_device s) = self_use_cuda s"
  "self_nu (copy_to_device s) = self_nu s"
  "self_r (copy_to_device s) = self_r s"
  "self_invM (copy_to_device s) = self_invM s"
  "self_M (copy_to_device s) = self_M s"
  "self_d_in (copy_to_device s) = self_d_in s"
  "self_d_out (copy_to_device s) = self_d_out s"
  "self_blas (copy_to_device s) = self_blas s"
  "self_dim_grid (copy_to_device s) = self_dim_grid s"
  "self_dim_block (copy_to_device s) = self_dim_block s"
  "self_p (copy_to_device s) = self_p s"
  "self_m (copy_to_device s) = self_m s"
  "self_Nr (copy_to_device s) = self_Nr s"
  "self_rmax (copy_to_device s) = self_rmax s"
  by (simp_all add: copy_to_device_def)

lemma copy_to_device_d [simp]:
  "self_d_M (copy_to_device s) =
     (if self_use_cuda s = Some True then map_option to_complex (self_M s) else self_d_M s)"
  "self_d_invM (copy_to_device s) =
     (if self_use_cuda s = Some True then map_option to_complex (self_invM s) else self_d_invM s)"
  by (simp_all add: copy_to_device_def)

lemma init_matrices_obj:
  "obj (init_matrices g env p m Nr rmax alphas r nu out s5) =
     (let s7 = s5\<lparr> self_invM := Some (inverse_matrix env p m Nr rmax alphas r nu),
                    self_M := fst (forward_matrix g env p m (inverse_matrix env p m Nr rmax alphas r nu)) \<rparr>
      in if snd (forward_matrix g env p m (inverse_matrix env p m Nr rmax alphas r nu)) = None
         then copy_to_device s7 else s7)"
  by (simp add: init_matrices_def Let_def split: prod.splits option.splits)

lemma init_matrices_raised:
  "raised (init_matrices g env p m Nr rmax alphas r nu out s5) =
     snd (forward_matrix g env p m (inverse_matrix env p m Nr rmax alphas r nu))"
  by (simp add: init_matrices_def Let_def split: prod.splits option.splits)

lemma init_matrices_stdout:
  "stdout (init_matrices g env p m Nr rmax alphas r nu out s5) = out"
  by (simp add: init_matrices_def Let_def split: prod.splits option.splits)


lemma DHT_init_valid:
  assumes "m \<in> set [p - 1, p, p + 1]" "bessel_alphas env m Nr = Inr alphas"
    "spectral_grid rmax alphas = Inr nu" "spatial_grid rmax Nr = Inr r"
  shows "\<exists>s5. DHT_init g env p m Nr Nz rmax uc =
           init_matrices g env p m Nr rmax alphas r nu
             (if uc \<and> \<not> cuda_installed env then cuda_warning else []) s5
         \<and> self_nu s5 = Some nu \<and> self_r s5 = Some r
         \<and> self_use_cuda s5 = Some (uc \<and> cuda_installed env)
         \<and> self_d_in s5 = (if uc \<and> cuda_installed env then Some (replicate Nz (replicate Nr 0)) else None)
         \<and> self_d_out s5 = (if uc \<and> cuda_installed env then Some (replicate Nz (replicate Nr 0)) else None)
         \<and> (uc \<and> cuda_installed env \<longrightarrow> self_blas s5 \<noteq> None \<and> self_dim_grid s5 \<noteq> None \<and> self_dim_block s5 \<noteq> None)
         \<and> self_M s5 = None \<and> self_d_M s5 = None \<and> self_d_invM s5 = None"
  using assms
  apply (cases uc; cases "cuda_installed env")
     apply (simp_all add: DHT_init_def Let_def new_dht_def init_device_def cuda_warning_def)
     apply (rule exI, rule conjI, rule refl, simp)+
  done

lemma bessel_alphas_returned:
  assumes "zeros_returned env m Nr" "1 \<le> Nr"
  shows "bessel_alphas env m Nr =
     Inr (if m \<noteq> 0 then 0 # map (jn_zero env m) [0..<Nr - 1] else map (jn_zero env m) [0..<Nr])"
  using assms
  by (auto simp: zeros_returned_def bessel_alphas_def jn_zeros_def nat_diff_distrib')

lemma spectral_grid_returned:
  "rmax \<noteq> 0 \<Longrightarrow> spectral_grid rmax alphas = Inr (map (\<lambda>a. 1 / (2 * pi * rmax) * a) alphas)"
  by (simp add: spectral_grid_def)

lemma spatial_grid_returned:
  "1 \<le> Nr \<Longrightarrow>
   spatial_grid rmax Nr = Inr (map (\<lambda>i. (rmax * 1 / real Nr) * (real i + 0.5)) [0..<Nr])"
  by (simp add: spatial_grid_def)

lemma DHT_init_invalid_mode:
  "m \<notin> set [p - 1, p, p + 1] \<Longrightarrow>
   \<exists>out s. DHT_init g env p m Nr Nz rmax uc =
      raise_in out s (ValueError ''m must be either p-1, p or p+1'')
    \<and> self_p s = None \<and> self_m s = None \<and> self_Nr s = None \<and> self_rmax s = None
    \<and> self_nu s = None \<and> self_r s = None \<and> self_invM s = None \<and> self_M s = None"
  apply (cases uc; cases "cuda_installed env")
     apply (simp_all add: DHT_init_def Let_def new_dht_def init_device_def)
     apply (rule exI, rule exI, rule conjI, rule refl, simp)+
  done


lemma DHT_init_reaches_matrices:
  assumes "valid_input p m Nr Nz rmax" "zeros_returned env m Nr"
  shows "\<exists>s5. DHT_init g env p m Nr Nz rmax uc =
           init_matrices g env p m Nr rmax (alphas_of env m Nr) (r_of Nr rmax) (nu_of env m Nr rmax)
             (if uc \<and> \<not> cuda_installed env then cuda_warning else []) s5
         \<and> self_nu s5 = Some (nu_of env m Nr rmax) \<and> self_r s5 = Some (r_of Nr rmax)
         \<and> self_use_cuda s5 = Some (uc \<and> cuda_installed env)
         \<and> self_d_in s5 = (if uc \<and> cuda_installed env then Some (replicate Nz (replicate Nr 0)) else None)
         \<and> self_d_out s5 = (if uc \<and> cuda_installed env then Some (replicate Nz (replicate Nr 0)) else None)
         \<and> (uc \<and> cuda_installed env \<longrightarrow> self_blas s5 \<noteq> None \<and> self_dim_grid s5 \<noteq> None \<and> self_dim_block s5 \<noteq> None)
         \<and> self_M s5 = None \<and> self_d_M s5 = None \<and> self_d_invM s5 = None"
proof -
  from assms(1) have v: "m \<in> set [p - 1, p, p + 1]" "1 \<le> Nr" "rmax \<noteq> 0"
    by (auto simp: valid_input_def)
  have a: "bessel_alphas env m Nr = Inr (alphas_of env m Nr)"
    unfolding alphas_of_def by (rule bessel_alphas_returned [OF assms(2) v(2)])
  have b: "spectral_grid rmax (alphas_of env m Nr) = Inr (nu_of env m Nr rmax)"
    unfolding nu_of_def by (rule spectral_grid_returned [OF v(3)])
  have c: "spatial_grid rmax Nr = Inr (r_of Nr rmax)"
    unfolding r_of_def by (rule spatial_grid_returned [OF v(2)])
  show ?thesis by (rule DHT_init_valid [OF v(1) a b c])
qed

lemma DHT_init_raised:
  assumes "valid_input p m Nr Nz rmax" "zeros_returned env m Nr"
  shows "raised (DHT_init g env p m Nr Nz rmax uc) =
           snd (forward_matrix g env p m (invM_of env p m Nr rmax))"
  using DHT_init_reaches_matrices [OF assms, of g uc]
  by (elim exE conjE) (simp only: init_matrices_raised invM_of_def)

lemma DHT_init_stdout:
  assumes "valid_input p m Nr Nz rmax" "zeros_returned env m Nr"
  shows "stdout (DHT_init g env p m Nr Nz rmax uc) =
           (if uc \<and> \<not> cuda_installed env then cuda_warning else [])"
  using DHT_init_reaches_matrices [OF assms, of g uc]
  by (elim exE conjE) (simp only: init_matrices_stdout)

lemma DHT_init_fields:
  assumes "valid_input p m Nr Nz rmax" "zeros_returned env m Nr"
  shows "self_nu (obj (DHT_init g env p m Nr Nz rmax uc)) = Some (nu_of env m Nr rmax)"
    and "self_r (obj (DHT_init g env p m Nr Nz rmax uc)) = Some (r_of Nr rmax)"
    and "self_invM (obj (DHT_init g env p m Nr Nz rmax uc)) = Some (invM_of env p m Nr rmax)"
    and "self_M (obj (DHT_init g env p m Nr Nz rmax uc)) =
           fst (forward_matrix g env p m (invM_of env p m Nr rmax))"
    and "self_use_cuda (obj (DHT_init g env p m Nr Nz rmax uc)) = Some (uc \<and> cuda_installed env)"
    and "self_d_in (obj (DHT_init g env p m Nr Nz rmax uc)) =
           (if uc \<and> cuda_installed env then Some (replicate Nz (replicate Nr 0)) else None)"
    and "self_d_out (obj (DHT_init g env p m Nr Nz rmax uc)) =
           (if uc \<and> cuda_installed env then Some (replicate Nz (replicate Nr 0)) else None)"
    and "uc \<and> cuda_installed env \<Longrightarrow>
           self_blas (obj (DHT_init g env p m Nr Nz rmax uc)) \<noteq> None
         \<and> self_dim_grid (obj (DHT_init g env p m Nr Nz rmax uc)) \<noteq> None
         \<and> self_dim_block (obj (DHT_init g env p m Nr Nz rmax uc)) \<noteq> None"
  using DHT_init_reaches_matrices [OF assms, of g uc]
  by (elim exE conjE; simp add: init_matrices_obj Let_def invM_of_def)+

lemma DHT_init_device_matrices:
  assumes "valid_input p m Nr Nz rmax" "zeros_returned env m Nr"
    "raised (DHT_init g env p m Nr Nz rmax uc) = None" "uc" "cuda_installed env"
  shows "self_d_M (obj (DHT_init g env p m Nr Nz rmax uc)) =
           map_option to_complex (fst (forward_matrix g env p m (invM_of env p m Nr rmax)))"
    and "self_d_invM (obj (DHT_init g env p m Nr Nz rmax uc)) =
           Some (to_complex (invM_of env p m Nr rmax))"
  using DHT_init_reaches_matrices [OF assms(1,2), of g uc] assms(3-)
        DHT_init_raised [OF assms(1,2), of g uc]
  by (elim exE conjE; simp add: init_matrices_obj Let_def invM_of_def)+

lemma sample_env_sel [simp]:
  "cuda_installed sample_env = False"
  "jn sample_env = (\<lambda>n x. x + 1)"
  "jn_zeros_raises sample_env = (\<lambda>n nt. if nt \<le> 0 then Some (ValueError ''nt > 0'') else None)"
  "jn_zero sample_env = (\<lambda>n k. real k + 1)"
  "linalg_inv sample_env = sample_inv"
  "linalg_pinv sample_env = sample_pinv"
  by (simp_all add: sample_env_def)

lemma sample_env_cuda_sel [simp]:
  "cuda_installed sample_env_cuda = True"
  "jn sample_env_cuda = (\<lambda>n x. x + 1)"
  "jn_zeros_raises sample_env_cuda = (\<lambda>n nt. if nt \<le> 0 then Some (ValueError ''nt > 0'') else None)"
  "jn_zero sample_env_cuda = (\<lambda>n k. real k + 1)"
  "linalg_inv sample_env_cuda = sample_inv"
  "linalg_pinv sample_env_cuda = sample_pinv"
  by (simp_all add: sample_env_cuda_def sample_env_def)



text \<open>
  C5. For every \<open>p\<close> and every \<open>m\<close> that is none of \<open>p-1\<close>, \<open>p\<close>, \<open>p+1\<close> the
  constructor raises the \<open>ValueError\<close> of line 73, whatever the other arguments, the
  globals and the environment are. It does so before any argument is registered and before
  any grid or matrix is computed, and nothing in the constructor catches the exception.
\<close>

theorem invalid_mode_raises:
  assumes "m \<notin> set [p - 1, p, p + 1]"
  shows "raised (DHT_init g env p m Nr Nz rmax use_cuda)
           = Some (ValueError ''m must be either p-1, p or p+1'')
         \<and> self_p (obj (DHT_init g env p m Nr Nz rmax use_cuda)) = None
         \<and> self_m (obj (DHT_init g env p m Nr Nz rmax use_cuda)) = None
         \<and> self_nu (obj (DHT_init g env p m Nr Nz rmax use_cuda)) = None
         \<and> self_r (obj (DHT_init g env p m Nr Nz rmax use_cuda)) = None
         \<and> self_invM (obj (DHT_init g env p m Nr Nz rmax use_cuda)) = None
         \<and> self_M (obj (DHT_init g env p m Nr Nz rmax use_cuda)) = None"
  using DHT_init_invalid_mode [OF assms, of g env Nr Nz rmax use_cuda]
  by (elim exE conjE) simp

theorem invalid_mode_raises_witness:
  "(2::int) \<notin> set [0 - 1, 0, 0 + 1]
   \<and> raised (DHT_init (hankel_globals False) sample_env 0 2 4 1 1 False)
       = Some (ValueError ''m must be either p-1, p or p+1'')
   \<and> self_nu (obj (DHT_init (hankel_globals False) sample_env 0 2 4 1 1 False)) = None"
  using invalid_mode_raises [of 2 0 "hankel_globals False" sample_env 4 1 1 False]
  by simp

subsection \<open>The grids\<close>

lemma length_alphas_of: "1 \<le> Nr \<Longrightarrow> length (alphas_of env m Nr) = Nr"
  by (simp add: alphas_of_def)

lemma length_nu_of: "1 \<le> Nr \<Longrightarrow> length (nu_of env m Nr rmax) = Nr"
  by (simp add: nu_of_def length_alphas_of)

lemma length_r_of: "length (r_of Nr rmax) = Nr"
  by (simp add: r_of_def)












subsection \<open>The inverse matrix\<close>

lemma inverse_matrix_length:
  assumes "length alphas = Nr" "length nu = Nr" "1 \<le> Nr"
  shows "length (inverse_matrix env p m Nr rmax alphas r nu) = Nr"
  using assms by (auto simp: inverse_matrix_def Let_def)

lemma inverse_matrix_row:
  assumes "length alphas = Nr" "length nu = Nr" "i < Nr"
  shows "inverse_matrix env p m Nr rmax alphas r nu ! i =
           (if m \<noteq> 0 \<and> i = 0
            then (if p = m - 1
                  then map (\<lambda>r_j. r_j powi (m - 1) * 1 / (pi * rmax powi (m + 1))) r
                  else replicate Nr 0)
            else map (\<lambda>r_j. jn env p (2 * pi * r_j * nu ! i)
                              / (pi * rmax ^ 2 * (jn env (if p = m then p + 1 else p) (alphas ! i)) ^ 2)) r)"
proof (cases "m \<noteq> 0 \<and> i = 0")
  case True
  then show ?thesis by (simp add: inverse_matrix_def Let_def)
next
  case False
  let ?quot = "map2 (\<lambda>row d. map (\<lambda>x. x / d) row)
                 (map (\<lambda>nu_i. map (\<lambda>r_j. jn env p (2 * pi * r_j * nu_i)) r) nu)
                 (map (\<lambda>a. pi * rmax ^ 2 * (jn env (if p = m then p + 1 else p) a) ^ 2) alphas)"
  have q: "?quot ! i = map (\<lambda>r_j. jn env p (2 * pi * r_j * nu ! i)
                              / (pi * rmax ^ 2 * (jn env (if p = m then p + 1 else p) (alphas ! i)) ^ 2)) r"
    using assms by simp
  have eq: "inverse_matrix env p m Nr rmax alphas r nu ! i = ?quot ! i"
  proof (cases "m = 0")
    case True
    then show ?thesis by (simp add: inverse_matrix_def Let_def)
  next
    case m: False
    with False obtain k where k: "i = Suc k" by (cases i) auto
    have "Suc k < length ?quot" using assms k by simp
    then have "drop 1 ?quot ! k = ?quot ! Suc k" by simp
    with m k show ?thesis by (simp add: inverse_matrix_def Let_def del: drop_Suc_Cons One_nat_def)
  qed
  show ?thesis unfolding eq q by (simp only: False if_False)
qed



text \<open>
  C2. The construction with \<open>p = 0\<close>, \<open>m = 0\<close>, \<open>Nr = 4\<close>, \<open>rmax = 1.0\<close>: the two
  grids are stored as the scenario says, \<open>r = [0.125, 0.375, 0.625, 0.875]\<close> and \<open>nu\<close> the
  four values of \<open>jn_zeros(0, 4)\<close> divided by \<open>2 \<pi>\<close>, but the constructor then raises
  \<open>NameError\<close> at line 118 and the forward matrix \<open>M\<close> is never assigned.
\<close>

theorem scenario_raises_NameError:
  assumes "zeros_returned env 0 4" "1 \<le> Nz"
  shows "raised (DHT_init (hankel_globals (cuda_installed env)) env 0 0 4 Nz 1 use_cuda)
           = Some (NameError ''N'')
       \<and> self_r (obj (DHT_init (hankel_globals (cuda_installed env)) env 0 0 4 Nz 1 use_cuda))
           = Some [0.125, 0.375, 0.625, 0.875]
       \<and> self_nu (obj (DHT_init (hankel_globals (cuda_installed env)) env 0 0 4 Nz 1 use_cuda))
           = Some (map (\<lambda>k. jn_zero env 0 k / (2 * pi * 1)) [0, 1, 2, 3])
       \<and> self_M (obj (DHT_init (hankel_globals (cuda_installed env)) env 0 0 4 Nz 1 use_cuda))
           = None"
proof -
  have v: "valid_input 0 0 4 Nz 1" using assms(2) by (simp add: valid_input_def)
  have u: "[0..<4] = [0, 1, 2, 3]" by (simp add: upt_rec)
  have r: "r_of 4 1 = [0.125, 0.375, 0.625, 0.875]" by (simp add: r_of_def u)
  have n: "nu_of env 0 4 1 = map (\<lambda>k. jn_zero env 0 k / (2 * pi * 1)) [0, 1, 2, 3]"
    by (simp add: nu_of_def alphas_of_def u)
  show ?thesis
    using DHT_init_fields(1,2,4) [OF v assms(1), of "hankel_globals (cuda_installed env)" use_cuda]
          DHT_init_raised [OF v assms(1), of "hankel_globals (cuda_installed env)" use_cuda]
    by (simp only: r n forward_matrix_NameError fst_conv snd_conv simp_thms)
qed

theorem scenario_raises_NameError_witness:
  "zeros_returned sample_env 0 4 \<and> (1::nat) \<le> 1
   \<and> raised (DHT_init (hankel_globals False) sample_env 0 0 4 1 1 False) = Some (NameError ''N'')
   \<and> self_r (obj (DHT_init (hankel_globals False) sample_env 0 0 4 1 1 False))
       = Some [0.125, 0.375, 0.625, 0.875]
   \<and> self_M (obj (DHT_init (hankel_globals False) sample_env 0 0 4 1 1 False)) = None"
  using scenario_raises_NameError [of sample_env 1 False]
  by (simp add: zeros_returned_def)

text \<open>
  C10. A construction that asks for the GPU when CUDA is not installed prints the two
  lines of the warning and registers \<open>use_cuda = False\<close>, with no device buffer
  allocated; but it does not return an instance: as every construction with a valid mode,
  it raises \<open>NameError\<close> at line 118.
\<close>

theorem fallback_then_NameError:
  assumes "\<not> cuda_installed env" "valid_input p m Nr Nz rmax" "zeros_returned env m Nr"
  shows "stdout (DHT_init (hankel_globals (cuda_installed env)) env p m Nr Nz rmax True)
           = cuda_warning
       \<and> self_use_cuda (obj (DHT_init (hankel_globals (cuda_installed env)) env p m Nr Nz rmax True))
           = Some False
       \<and> self_d_in (obj (DHT_init (hankel_globals (cuda_installed env)) env p m Nr Nz rmax True))
           = None
       \<and> raised (DHT_init (hankel_globals (cuda_installed env)) env p m Nr Nz rmax True)
           = Some (NameError ''N'')"
  using DHT_init_fields(5,6) [OF assms(2,3), of "hankel_globals (cuda_installed env)" True]
        DHT_init_raised [OF assms(2,3), of "hankel_globals (cuda_installed env)" True]
        DHT_init_stdout [OF assms(2,3), of "hankel_globals (cuda_installed env)" True]
        assms(1)
  by (simp add: forward_matrix_NameError)

theorem fallback_then_NameError_witness:
  "\<not> cuda_installed sample_env \<and> valid_input 0 0 4 1 1 \<and> zeros_returned sample_env 0 4
   \<and> stdout (DHT_init (hankel_globals False) sample_env 0 0 4 1 1 True) = cuda_warning
   \<and> self_use_cuda (obj (DHT_init (hankel_globals False) sample_env 0 0 4 1 1 True)) = Some False
   \<and> raised (DHT_init (hankel_globals False) sample_env 0 0 4 1 1 True) = Some (NameError ''N'')"
  using fallback_then_NameError [of sample_env 0 0 4 1 1]
  by (simp add: valid_input_def zeros_returned_def)

section \<open>Matrix products\<close>

lemma ncols_Cons [simp]: "ncols (row # A) = length row"
  by (simp add: ncols_def)

lemma ncols_Nil [simp]: "ncols [] = 0"
  by (simp add: ncols_def)

lemma ncols_map: "A \<noteq> [] \<Longrightarrow> ncols (map f A) = length (f (A ! 0))"
  by (cases A) simp_all

lemma rectangular_nth: "rectangular A \<Longrightarrow> i < length A \<Longrightarrow> length (A ! i) = ncols A"
  by (simp add: rectangular_def)

lemma length_mat_mul [simp]: "length (mat_mul A B) = length A"
  by (simp add: mat_mul_def)

lemma ncols_mat_mul: "A \<noteq> [] \<Longrightarrow> ncols (mat_mul A B) = ncols B"
  by (simp add: mat_mul_def ncols_map)

lemma length_mat_mul_row: "i < length A \<Longrightarrow> length (mat_mul A B ! i) = ncols B"
  by (simp add: mat_mul_def)

lemma mat_mul_nth:
  "i < length A \<Longrightarrow> j < ncols B \<Longrightarrow>
   mat_mul A B ! i ! j = (\<Sum>l = 0..<length B. A ! i ! l * B ! l ! j)"
  by (simp add: mat_mul_def interv_sum_list_conv_sum_set_nat)

lemma mat_eqI:
  assumes "length A = length B"
    and "\<And>i. i < length A \<Longrightarrow> length (A ! i) = n \<and> length (B ! i) = n"
    and "\<And>i j. i < length A \<Longrightarrow> j < n \<Longrightarrow> A ! i ! j = B ! i ! j"
  shows "A = B"
proof (rule nth_equalityI [OF assms(1)])
  fix i assume i: "i < length A"
  show "A ! i = B ! i"
    using assms(2) [OF i] assms(3) [OF i] by (intro nth_equalityI) simp_all
qed

lemma mat_mul_assoc:
  fixes A B C :: "'a::comm_ring_1 mat"
  assumes "B \<noteq> []" "ncols B = length C"
  shows "mat_mul (mat_mul A B) C = mat_mul A (mat_mul B C)"
proof (rule mat_eqI [where n = "ncols C"])
  show "length (mat_mul (mat_mul A B) C) = length (mat_mul A (mat_mul B C))" by simp
next
  fix i assume "i < length (mat_mul (mat_mul A B) C)"
  then have i: "i < length A" by simp
  show "length (mat_mul (mat_mul A B) C ! i) = ncols C
      \<and> length (mat_mul A (mat_mul B C) ! i) = ncols C"
    using i assms(1) by (simp add: length_mat_mul_row ncols_mat_mul)
next
  fix i j assume "i < length (mat_mul (mat_mul A B) C)" and j: "j < ncols C"
  then have i: "i < length A" by simp
  have "mat_mul (mat_mul A B) C ! i ! j
          = (\<Sum>l = 0..<length C. mat_mul A B ! i ! l * C ! l ! j)"
    using i j by (simp add: mat_mul_nth)
  also have "\<dots> = (\<Sum>l = 0..<length C. (\<Sum>k = 0..<length B. A ! i ! k * B ! k ! l) * C ! l ! j)"
    using i assms(2) by (intro sum.cong refl) (simp add: mat_mul_nth)
  also have "\<dots> = (\<Sum>l = 0..<length C. \<Sum>k = 0..<length B. A ! i ! k * (B ! k ! l * C ! l ! j))"
    by (simp add: sum_distrib_right mult.assoc)
  also have "\<dots> = (\<Sum>k = 0..<length B. \<Sum>l = 0..<length C. A ! i ! k * (B ! k ! l * C ! l ! j))"
    by (rule sum.swap)
  also have "\<dots> = (\<Sum>k = 0..<length B. A ! i ! k * mat_mul B C ! k ! j)"
    using j by (intro sum.cong refl) (simp add: mat_mul_nth sum_distrib_left)
  also have "\<dots> = mat_mul A (mat_mul B C) ! i ! j"
    using i j assms(1) by (simp add: mat_mul_nth ncols_mat_mul)
  finally show "mat_mul (mat_mul A B) C ! i ! j = mat_mul A (mat_mul B C) ! i ! j" .
qed

lemma length_identity [simp]: "length (identity n) = n"
  by (simp add: identity_def)

lemma ncols_identity [simp]: "ncols (identity n) = n"
  by (cases n) (simp_all add: identity_def ncols_map del: upt_Suc)

lemma identity_nth: "i < n \<Longrightarrow> j < n \<Longrightarrow> identity n ! i ! j = (if i = j then 1 else 0)"
  by (simp add: identity_def)

lemma mat_mul_identity:
  fixes A :: "'a::comm_ring_1 mat"
  assumes "rectangular A" "ncols A = n"
  shows "mat_mul A (identity n) = A"
proof (rule mat_eqI [where n = n])
  show "length (mat_mul A (identity n)) = length A" by simp
next
  fix i assume "i < length (mat_mul A (identity n))"
  then show "length (mat_mul A (identity n) ! i) = n \<and> length (A ! i) = n"
    using assms by (simp add: length_mat_mul_row rectangular_nth)
next
  fix i j assume "i < length (mat_mul A (identity n))" and j: "j < n"
  then have i: "i < length A" by simp
  have "mat_mul A (identity n) ! i ! j = (\<Sum>l = 0..<n. A ! i ! l * identity n ! l ! j)"
    using i j by (simp add: mat_mul_nth)
  also have "\<dots> = (\<Sum>l = 0..<n. if l = j then A ! i ! j else 0)"
    using j by (intro sum.cong refl) (simp add: identity_nth)
  also have "\<dots> = A ! i ! j"
    using j by simp
  finally show "mat_mul A (identity n) ! i ! j = A ! i ! j" .
qed

lemma length_to_complex [simp]: "length (to_complex A) = length A"
  by (simp add: to_complex_def)

lemma ncols_to_complex [simp]: "ncols (to_complex A) = ncols A"
  by (cases A) (simp_all add: to_complex_def)

lemma to_complex_nth:
  "i < length A \<Longrightarrow> j < length (A ! i) \<Longrightarrow> to_complex A ! i ! j = complex_of_real (A ! i ! j)"
  by (simp add: to_complex_def)

lemma to_complex_identity: "to_complex (identity n) = identity n"
  by (simp add: to_complex_def identity_def)

lemma to_complex_mat_mul:
  assumes "rectangular A" "ncols A = length B" "rectangular B"
  shows "to_complex (mat_mul A B) = mat_mul (to_complex A) (to_complex B)"
proof (rule mat_eqI [where n = "ncols B"])
  show "length (to_complex (mat_mul A B)) = length (mat_mul (to_complex A) (to_complex B))"
    by simp
next
  fix i assume "i < length (to_complex (mat_mul A B))"
  then show "length (to_complex (mat_mul A B) ! i) = ncols B
           \<and> length (mat_mul (to_complex A) (to_complex B) ! i) = ncols B"
    by (simp add: length_mat_mul_row) (simp add: to_complex_def length_mat_mul_row)
next
  fix i j assume "i < length (to_complex (mat_mul A B))" and j: "j < ncols B"
  then have i: "i < length A" by simp
  have "to_complex (mat_mul A B) ! i ! j = complex_of_real (mat_mul A B ! i ! j)"
    using i j by (simp add: to_complex_nth length_mat_mul_row)
  also have "\<dots> = (\<Sum>l = 0..<length B. complex_of_real (A ! i ! l) * complex_of_real (B ! l ! j))"
    using i j by (simp add: mat_mul_nth)
  also have "\<dots> = (\<Sum>l = 0..<length B. to_complex A ! i ! l * to_complex B ! l ! j)"
    using i j assms by (intro sum.cong refl) (simp add: to_complex_nth rectangular_nth)
  also have "\<dots> = mat_mul (to_complex A) (to_complex B) ! i ! j"
    using i j by (simp add: mat_mul_nth)
  finally show "to_complex (mat_mul A B) ! i ! j = mat_mul (to_complex A) (to_complex B) ! i ! j" .
qed

lemma map_upt_nth: "map (\<lambda>i. f (xs ! i)) [0..<length xs] = map f xs"
  by (rule nth_equalityI) simp_all

lemma gemm_mat_mul:
  assumes "length A = m" "ncols B = n" "length B = k"
  shows "gemm m n k 1 A B 0 C = mat_mul A B"
proof -
  have "gemm m n k 1 A B 0 C =
          map (\<lambda>i. (\<lambda>row. map (\<lambda>j. sum_list (map (\<lambda>l. row ! l * B ! l ! j) [0..<length B]))
                                  [0..<ncols B]) (A ! i)) [0..<length A]"
    using assms by (simp add: gemm_def)
  also have "\<dots> = mat_mul A B"
    unfolding mat_mul_def by (rule map_upt_nth)
  finally show ?thesis .
qed

section \<open>Properties of the two transforms\<close>

text \<open>
  With the globals of the module no call of the constructor returns. The properties of
  instances are therefore stated for any globals \<open>g\<close> under which the call returns, for
  example \<open>globals_with_N\<close>, where the name \<open>N\<close> is bound.
\<close>

lemma call_fails_sel [simp]:
  "call_raised (call_fails s Y e) = Some e" "call_out (call_fails s Y e) = Y"
  "call_obj (call_fails s Y e) = s"
  by (simp_all add: call_fails_def)



text \<open>The CPU path is \<open>np.dot\<close> and nothing else.\<close>

lemma transform_cpu:
  "self_use_cuda s = Some False \<Longrightarrow> self_M s = Some M \<Longrightarrow>
   transform s F G =
     (case np_dot F M G of
        Inl e \<Rightarrow> call_fails s G e
      | Inr G' \<Rightarrow> \<lparr> call_obj = s, call_out = G', call_raised = None \<rparr>)"
  by (simp add: transform_def)

lemma inverse_transform_cpu:
  "self_use_cuda s = Some False \<Longrightarrow> self_invM s = Some invM \<Longrightarrow>
   inverse_transform s G F =
     (case np_dot G invM F of
        Inl e \<Rightarrow> call_fails s F e
      | Inr F' \<Rightarrow> \<lparr> call_obj = s, call_out = F', call_raised = None \<rparr>)"
  by (simp add: inverse_transform_def)

lemma np_dot_returns:
  "ncols a = length b \<Longrightarrow> shape out = (length a, ncols b) \<Longrightarrow>
   np_dot a b out = Inr (mat_mul a (to_complex b))"
  by (simp add: np_dot_def)



lemma transform_gpu:
  assumes "self_use_cuda s = Some True" "self_d_in s = Some d_in" "self_d_out s = Some d_out"
    and "self_blas s \<noteq> None" "self_dim_grid s \<noteq> None" "self_dim_block s \<noteq> None"
    and "self_d_M s = Some d_M"
    and "shape F = shape d_in" "shape G = shape d_out"
  shows "transform s F G =
     \<lparr> call_obj = s\<lparr> self_d_in := Some F,
                     self_d_out := Some (gemm (length F) (ncols F) (ncols F) 1 F d_M 0 d_out) \<rparr>,
       call_out = gemm (length F) (ncols F) (ncols F) 1 F d_M 0 d_out,
       call_raised = None \<rparr>"
  using assms by (auto simp: transform_def Let_def cuda_copy_2d_to_2d_def shape_def)

lemma inverse_transform_gpu:
  assumes "self_use_cuda s = Some True" "self_d_in s = Some d_in" "self_d_out s = Some d_out"
    and "self_blas s \<noteq> None" "self_dim_grid s \<noteq> None" "self_dim_block s \<noteq> None"
    and "self_d_invM s = Some d_invM"
    and "shape G = shape d_in" "shape F = shape d_out"
  shows "inverse_transform s G F =
     \<lparr> call_obj = s\<lparr> self_d_in := Some G,
                     self_d_out := Some (gemm (length G) (ncols G) (ncols G) 1 G d_invM 0 d_out) \<rparr>,
       call_out = gemm (length G) (ncols G) (ncols G) 1 G d_invM 0 d_out,
       call_raised = None \<rparr>"
  using assms by (auto simp: inverse_transform_def Let_def cuda_copy_2d_to_2d_def shape_def)

subsection \<open>The matrices of an instance\<close>

lemma square_length: "square n A \<Longrightarrow> length A = n"
  by (simp add: square_def)

lemma square_ncols: "square n A \<Longrightarrow> 1 \<le> n \<Longrightarrow> ncols A = n"
  by (cases A) (simp_all add: square_def)

lemma square_rectangular: "square n A \<Longrightarrow> 1 \<le> n \<Longrightarrow> rectangular A"
  by (simp add: rectangular_def square_ncols) (simp add: square_def)

lemma square_invM_of:
  assumes "1 \<le> Nr"
  shows "square Nr (invM_of env p m Nr rmax)"
proof -
  note la = length_alphas_of [OF assms, of env m]
  note ln = length_nu_of [OF assms, of env m rmax]
  have len: "length (invM_of env p m Nr rmax) = Nr"
    unfolding invM_of_def by (rule inverse_matrix_length [OF la ln assms])
  have "length (invM_of env p m Nr rmax ! i) = Nr" if "i < Nr" for i
    unfolding invM_of_def inverse_matrix_row [OF la ln that] by (simp add: length_r_of)
  with len show ?thesis
    by (auto simp: square_def in_set_conv_nth)
qed

lemma forward_matrix_inv_branch:
  assumes "\<not> (m \<noteq> 0 \<and> p \<noteq> m - 1)" "snd (forward_matrix g env p m invM) = None"
  shows "\<exists>M. fst (forward_matrix g env p m invM) = Some M \<and> linalg_inv env invM = Inr M"
  using assms unfolding forward_matrix_def load_global_def Let_def
  by (auto split: option.splits pyval.splits sum.splits if_splits)

lemma broadcast_to_shape:
  assumes "broadcast_to c d V = Inr P"
  shows "length P = c \<and> (\<forall>row \<in> set P. length row = d)"
  using assms unfolding broadcast_to_def Let_def
  by (auto split: if_splits)

lemma forward_matrix_pinv_branch:
  assumes "m \<noteq> 0 \<and> p \<noteq> m - 1" "snd (forward_matrix g env p m invM) = None"
    and "g ''N'' = Some (PyInt (int n))"
  shows "\<exists>P. fst (forward_matrix g env p m invM) = Some (map (\<lambda>row. 0 # row) P)
            \<and> length P = n \<and> (\<forall>row \<in> set P. length row = n - 1) \<and> 1 \<le> n"
proof -
  from assms obtain V P where
    "broadcast_to n (n - 1) P = Inr V" "n \<noteq> 0"
    "fst (forward_matrix g env p m invM) = Some (map (\<lambda>row. 0 # row) V)"
    unfolding forward_matrix_def load_global_def Let_def
    by (auto split: sum.splits if_splits)
  with broadcast_to_shape [of n "n - 1" P V] show ?thesis
    by (intro exI [of _ V]) simp
qed


lemma square_zero_column:
  assumes "length P = n" "\<forall>row \<in> set P. length row = n - 1" "1 \<le> n"
  shows "square n (map (\<lambda>row. 0 # row) P)"
  using assms by (auto simp: square_def)

lemma shape_replicate: "1 \<le> Nz \<Longrightarrow> shape (replicate Nz (replicate Nr x)) = (Nz, Nr)"
  by (cases Nz) (simp_all add: shape_def)

subsection \<open>Both paths compute the matrix product\<close>

lemma shape_mat_mul: "A \<noteq> [] \<Longrightarrow> shape (mat_mul A B) = (length A, ncols B)"
  by (simp add: shape_def ncols_mat_mul)

lemma shape_nonempty: "shape A = (Nz, Nr) \<Longrightarrow> 1 \<le> Nz \<Longrightarrow> A \<noteq> [] \<and> length A = Nz \<and> ncols A = Nr"
  by (auto simp: shape_def)

lemma transform_product:
  assumes "self_use_cuda s = Some b"
    and "b \<Longrightarrow> \<exists>d_in d_out. self_d_in s = Some d_in \<and> shape d_in = (Nz, Nr)
                \<and> self_d_out s = Some d_out \<and> shape d_out = (Nz, Nr)
                \<and> self_blas s \<noteq> None \<and> self_dim_grid s \<noteq> None \<and> self_dim_block s \<noteq> None
                \<and> self_d_M s = Some (to_complex M)"
    and "self_M s = Some M" "square Nr M" "1 \<le> Nr" "1 \<le> Nz"
    and "shape F = (Nz, Nr)" "shape G = (Nz, Nr)"
  shows "transform s F G =
     \<lparr> call_obj = (if b then s\<lparr> self_d_in := Some F,
                                self_d_out := Some (mat_mul F (to_complex M)) \<rparr> else s),
       call_out = mat_mul F (to_complex M),
       call_raised = None \<rparr>"
proof (cases b)
  case False
  have "np_dot F M G = Inr (mat_mul F (to_complex M))"
    using assms(4-) by (intro np_dot_returns) (simp_all add: shape_def square_length square_ncols)
  with False assms(1,3) show ?thesis by (simp add: transform_cpu)
next
  case True
  with assms(2) obtain d_in d_out where d:
    "self_d_in s = Some d_in" "shape d_in = (Nz, Nr)"
    "self_d_out s = Some d_out" "shape d_out = (Nz, Nr)"
    "self_blas s \<noteq> None" "self_dim_grid s \<noteq> None" "self_dim_block s \<noteq> None"
    "self_d_M s = Some (to_complex M)"
    by blast
  have g: "gemm (length F) (ncols F) (ncols F) 1 F (to_complex M) 0 d_out
             = mat_mul F (to_complex M)"
    using assms(4-) by (intro gemm_mat_mul) (simp_all add: shape_def square_length square_ncols)
  from True assms(1) have u: "self_use_cuda s = Some True" by simp
  show ?thesis
    using transform_gpu [OF u d(1,3,5,6,7,8), of F G] d(2,4) assms(7,8) True
    by (simp add: g)
qed

lemma inverse_transform_product:
  assumes "self_use_cuda s = Some b"
    and "b \<Longrightarrow> \<exists>d_in d_out. self_d_in s = Some d_in \<and> shape d_in = (Nz, Nr)
                \<and> self_d_out s = Some d_out \<and> shape d_out = (Nz, Nr)
                \<and> self_blas s \<noteq> None \<and> self_dim_grid s \<noteq> None \<and> self_dim_block s \<noteq> None
                \<and> self_d_invM s = Some (to_complex invM)"
    and "self_invM s = Some invM" "square Nr invM" "1 \<le> Nr" "1 \<le> Nz"
    and "shape G = (Nz, Nr)" "shape F = (Nz, Nr)"
  shows "inverse_transform s G F =
     \<lparr> call_obj = (if b then s\<lparr> self_d_in := Some G,
                                self_d_out := Some (mat_mul G (to_complex invM)) \<rparr> else s),
       call_out = mat_mul G (to_complex invM),
       call_raised = None \<rparr>"
proof (cases b)
  case False
  have "np_dot G invM F = Inr (mat_mul G (to_complex invM))"
    using assms(4-) by (intro np_dot_returns) (simp_all add: shape_def square_length square_ncols)
  with False assms(1,3) show ?thesis by (simp add: inverse_transform_cpu)
next
  case True
  with assms(2) obtain d_in d_out where d:
    "self_d_in s = Some d_in" "shape d_in = (Nz, Nr)"
    "self_d_out s = Some d_out" "shape d_out = (Nz, Nr)"
    "self_blas s \<noteq> None" "self_dim_grid s \<noteq> None" "self_dim_block s \<noteq> None"
    "self_d_invM s = Some (to_complex invM)"
    by blast
  have g: "gemm (length G) (ncols G) (ncols G) 1 G (to_complex invM) 0 d_out
             = mat_mul G (to_complex invM)"
    using assms(4-) by (intro gemm_mat_mul) (simp_all add: shape_def square_length square_ncols)
  from True assms(1) have u: "self_use_cuda s = Some True" by simp
  show ?thesis
    using inverse_transform_gpu [OF u d(1,3,5,6,7,8), of G F] d(2,4) assms(7,8) True
    by (simp add: g)
qed

text \<open>The two products in a row, when the forward matrix is a left inverse.\<close>

lemma product_with_left_inverse:
  assumes "square Nr M" "square Nr invM" "1 \<le> Nr" "mat_mul M invM = identity Nr"
    and "rectangular F" "ncols F = Nr"
  shows "mat_mul (mat_mul F (to_complex M)) (to_complex invM) = F"
proof -
  have ne: "to_complex M \<noteq> []"
    using assms(1,3) by (auto simp: to_complex_def square_def)
  have "mat_mul (mat_mul F (to_complex M)) (to_complex invM)
          = mat_mul F (mat_mul (to_complex M) (to_complex invM))"
    using assms(1-3) by (intro mat_mul_assoc ne) (simp add: square_ncols square_length)
  also have "mat_mul (to_complex M) (to_complex invM) = to_complex (mat_mul M invM)"
    using assms(1-3)
    by (intro to_complex_mat_mul [symmetric])
       (simp_all add: square_rectangular square_ncols square_length)
  also have "\<dots> = identity Nr"
    by (simp add: assms(4) to_complex_identity)
  also have "mat_mul F (identity Nr) = F"
    by (rule mat_mul_identity [OF assms(5,6)])
  finally show ?thesis .
qed

text \<open>A forward matrix whose column \<open>0\<close> is zero gives a product whose column \<open>0\<close> is zero.\<close>

lemma zero_column_product:
  assumes "i < length F" "P \<noteq> []"
  shows "mat_mul F (to_complex (map (\<lambda>row. 0 # row) P)) ! i ! 0 = 0"
proof -
  let ?M = "to_complex (map (\<lambda>row. 0 # row) P)"
  have c: "0 < ncols ?M" using assms(2) by (cases P) simp_all
  have "mat_mul F ?M ! i ! 0 = (\<Sum>l = 0..<length ?M. F ! i ! l * ?M ! l ! 0)"
    using assms(1) c by (simp add: mat_mul_nth)
  also have "\<dots> = (\<Sum>l = 0..<length ?M. 0)"
    by (intro sum.cong refl) (simp add: to_complex_def)
  finally show ?thesis by simp
qed

subsection \<open>Instances in the sample environment\<close>

lemma upt_2: "[0..<2] = [0, 1]"
  by (simp add: upt_rec)

lemma globals_with_N_N [simp]: "globals_with_N c n ''N'' = Some (PyInt n)"
  by (simp add: globals_with_N_def)

lemma sample_valid_1: "valid_input 0 0 1 1 1" "zeros_returned sample_env 0 1"
  "zeros_returned sample_env_cuda 0 1"
  by (simp_all add: valid_input_def zeros_returned_def)

lemma sample_invM_1:
  "invM_of sample_env 0 0 1 1 = [[3 / (8 * pi)]]"
  "invM_of sample_env_cuda 0 0 1 1 = [[3 / (8 * pi)]]"
  by (simp_all add: invM_of_def inverse_matrix_def alphas_of_def nu_of_def r_of_def Let_def)

lemma sample_forward_1:
  "forward_matrix (globals_with_N c 1) sample_env 0 0 [[3 / (8 * pi)]]
     = (Some [[8 * pi / 3]], None)"
  "forward_matrix (globals_with_N c 1) sample_env_cuda 0 0 [[3 / (8 * pi)]]
     = (Some [[8 * pi / 3]], None)"
  by (simp_all add: forward_matrix_def load_global_def Let_def)

lemma sample_instance_1:
  "raised (DHT_init (globals_with_N False 1) sample_env 0 0 1 1 1 False) = None"
  "self_use_cuda (obj (DHT_init (globals_with_N False 1) sample_env 0 0 1 1 1 False)) = Some False"
  "self_M (obj (DHT_init (globals_with_N False 1) sample_env 0 0 1 1 1 False)) = Some [[8 * pi / 3]]"
  "self_invM (obj (DHT_init (globals_with_N False 1) sample_env 0 0 1 1 1 False))
     = Some [[3 / (8 * pi)]]"
  using DHT_init_raised [OF sample_valid_1(1,2), of "globals_with_N False 1" False]
        DHT_init_fields(3,4,5) [OF sample_valid_1(1,2), of "globals_with_N False 1" False]
  unfolding sample_invM_1 sample_forward_1
  by simp_all





text \<open>
  C1, as the code has it. Take an instance of a valid construction and arrays of shape
  \<open>(Nz, Nr)\<close>.
  \<^item> When \<open>m = 0\<close> or \<open>p = m - 1\<close> the forward matrix is \<open>np.linalg.inv(invM)\<close>
    (line 123), so \<open>transform\<close> followed by \<open>inverse_transform\<close> gives the input back,
    exactly in real arithmetic, whenever the inverse that numpy returns is the inverse.
  \<^item> When \<open>m \<noteq> 0\<close> and \<open>p \<noteq> m - 1\<close> (that is \<open>p = m\<close> or \<open>p = m + 1\<close>) column
    \<open>0\<close> of \<open>M\<close> is set to zero (line 121), so column \<open>0\<close> of the transform of any
    input is zero: this, and not \<open>p = m - 1\<close>, is the combination that loses the content
    at zero frequency. It is stated for \<open>N\<close> bound to \<open>Nr\<close>, the size that \<open>M\<close>
    needs for the product to be defined.
\<close>

theorem round_trip:
  assumes "valid_input p m Nr Nz rmax" "zeros_returned env m Nr"
    and "raised (DHT_init g env p m Nr Nz rmax use_cuda) = None"
    and "rectangular F" "shape F = (Nz, Nr)" "shape G = (Nz, Nr)" "shape F' = (Nz, Nr)"
  defines "s \<equiv> obj (DHT_init g env p m Nr Nz rmax use_cuda)"
  shows "(m = 0 \<or> p = m - 1 \<longrightarrow> (\<forall>A. self_invM s = Some A \<longrightarrow> inverts env A) \<longrightarrow>
            call_raised (transform s F G) = None
          \<and> call_raised (inverse_transform (call_obj (transform s F G))
                            (call_out (transform s F G)) F') = None
          \<and> call_out (inverse_transform (call_obj (transform s F G))
                         (call_out (transform s F G)) F') = F)
       \<and> (m \<noteq> 0 \<and> p \<noteq> m - 1 \<longrightarrow> g ''N'' = Some (PyInt (int Nr)) \<longrightarrow>
            call_raised (transform s F G) = None
          \<and> (\<forall>i<Nz. call_out (transform s F G) ! i ! 0 = 0))"
proof -
  define b where "b = (use_cuda \<and> cuda_installed env)"
  define invM where "invM = invM_of env p m Nr rmax"
  from assms(1) have v: "1 \<le> Nr" "1 \<le> Nz" by (simp_all add: valid_input_def)
  note f = DHT_init_fields [OF assms(1,2), where g = g and uc = use_cuda,
             folded s_def b_def invM_def]
  have fm: "snd (forward_matrix g env p m invM) = None"
    using assms(3) DHT_init_raised [OF assms(1,2), of g use_cuda] by (simp add: invM_def)
  have sq: "square Nr invM" unfolding invM_def by (rule square_invM_of [OF v(1)])
  have Fs: "F \<noteq> []" "length F = Nz" "ncols F = Nr"
    using shape_nonempty [OF assms(5) v(2)] by simp_all
  have z: "shape (replicate Nz (replicate Nr (0::complex))) = (Nz, Nr)"
    by (rule shape_replicate [OF v(2)])
  have dev: "self_d_M s = map_option to_complex (self_M s)"
            "self_d_invM s = Some (to_complex invM)" if b
    using DHT_init_device_matrices [OF assms(1,2,3)] that f(4)
    by (simp_all add: b_def s_def invM_def)
  have ready: "\<exists>d_in d_out. self_d_in s = Some d_in \<and> shape d_in = (Nz, Nr)
                \<and> self_d_out s = Some d_out \<and> shape d_out = (Nz, Nr)
                \<and> self_blas s \<noteq> None \<and> self_dim_grid s \<noteq> None \<and> self_dim_block s \<noteq> None
                \<and> self_d_M s = Some (to_complex M)"
    if "b" "self_M s = Some M" for M
    using f(6,7,8) dev(1) that z by simp
  have tr: "transform s F G =
     \<lparr> call_obj = (if b then s\<lparr> self_d_in := Some F,
                                self_d_out := Some (mat_mul F (to_complex M)) \<rparr> else s),
       call_out = mat_mul F (to_complex M), call_raised = None \<rparr>"
    if "self_M s = Some M" "square Nr M" for M
    by (rule transform_product [OF f(5) ready [OF _ that(1)] that v assms(5,6)])
  show ?thesis
  proof (intro conjI impI)
    assume br: "m = 0 \<or> p = m - 1" and inv: "\<forall>A. self_invM s = Some A \<longrightarrow> inverts env A"
    from br have "\<not> (m \<noteq> 0 \<and> p \<noteq> m - 1)" by auto
    from forward_matrix_inv_branch [OF this fm] f(4)
    obtain M where M: "self_M s = Some M" "linalg_inv env invM = Inr M" by auto
    from inv f(3) have "inverts env invM" by simp
    with M(2) have Msq: "square Nr M" and left: "mat_mul M invM = identity Nr"
      by (simp_all add: inverts_def square_length [OF sq])
    note t = tr [OF M(1) Msq]
    let ?G1 = "mat_mul F (to_complex M)"
    let ?s1 = "if b then s\<lparr> self_d_in := Some F, self_d_out := Some ?G1 \<rparr> else s"
    have G1: "shape ?G1 = (Nz, Nr)"
      using Fs by (simp add: shape_mat_mul square_ncols [OF Msq v(1)])
    have r1: "\<exists>d_in d_out. self_d_in ?s1 = Some d_in \<and> shape d_in = (Nz, Nr)
                \<and> self_d_out ?s1 = Some d_out \<and> shape d_out = (Nz, Nr)
                \<and> self_blas ?s1 \<noteq> None \<and> self_dim_grid ?s1 \<noteq> None
                \<and> self_dim_block ?s1 \<noteq> None
                \<and> self_d_invM ?s1 = Some (to_complex invM)" if b
      using that f(8) dev(2) assms(5) G1 by simp
    have u1: "self_use_cuda ?s1 = Some b" using f(5) by simp
    have i1: "self_invM ?s1 = Some invM" using f(3) by simp
    note it = inverse_transform_product [OF u1 r1 i1 sq v G1 assms(7)]
    have "mat_mul ?G1 (to_complex invM) = F"
      by (rule product_with_left_inverse [OF Msq sq v(1) left assms(4) Fs(3)])
    then show "call_raised (transform s F G) = None"
      and "call_raised (inverse_transform (call_obj (transform s F G))
                            (call_out (transform s F G)) F') = None"
      and "call_out (inverse_transform (call_obj (transform s F G))
                         (call_out (transform s F G)) F') = F"
      unfolding t by (simp_all add: it)
  next
    assume br: "m \<noteq> 0 \<and> p \<noteq> m - 1" and N: "g ''N'' = Some (PyInt (int Nr))"
    from forward_matrix_pinv_branch [OF br fm N] f(4)
    obtain P where P: "self_M s = Some (map (\<lambda>row. 0 # row) P)"
      "length P = Nr" "\<forall>row \<in> set P. length row = Nr - 1"
      by auto
    have Msq: "square Nr (map (\<lambda>row. 0 # row) P)"
      by (rule square_zero_column [OF P(2,3) v(1)])
    note t = tr [OF P(1) Msq]
    from P(2) v(1) have "P \<noteq> []" by auto
    then show "call_raised (transform s F G) = None"
      and "\<forall>i<Nz. call_out (transform s F G) ! i ! 0 = 0"
      unfolding t using Fs(2) by (simp_all add: zero_column_product)
  qed
qed

lemma sample_valid_2: "valid_input 1 1 2 1 1" "zeros_returned sample_env 1 2"
  by (simp_all add: valid_input_def zeros_returned_def)

lemma sample_invM_2: "invM_of sample_env 1 1 2 1 = [[0, 0], [5 / (16 * pi), 7 / (16 * pi)]]"
  by (simp add: invM_of_def inverse_matrix_def alphas_of_def nu_of_def r_of_def Let_def upt_2
        numeral_2_eq_2)

lemma sample_forward_2:
  "forward_matrix (globals_with_N c 2) sample_env 1 1 [[0, 0], [5 / (16 * pi), 7 / (16 * pi)]]
     = (Some [[0, 40 * pi / 37], [0, 56 * pi / 37]], None)"
  by (simp add: forward_matrix_def load_global_def Let_def broadcast_to_def upt_2)

lemma sample_instance_2:
  "raised (DHT_init (globals_with_N False 2) sample_env 1 1 2 1 1 False) = None"
  "self_use_cuda (obj (DHT_init (globals_with_N False 2) sample_env 1 1 2 1 1 False)) = Some False"
  "self_M (obj (DHT_init (globals_with_N False 2) sample_env 1 1 2 1 1 False))
     = Some [[0, 40 * pi / 37], [0, 56 * pi / 37]]"
  "self_invM (obj (DHT_init (globals_with_N False 2) sample_env 1 1 2 1 1 False))
     = Some [[0, 0], [5 / (16 * pi), 7 / (16 * pi)]]"
  using DHT_init_raised [OF sample_valid_2, of "globals_with_N False 2" False]
        DHT_init_fields(3,4,5) [OF sample_valid_2, of "globals_with_N False 2" False]
  unfolding sample_invM_2 sample_forward_2
  by simp_all

lemma sample_inverts_1: "inverts sample_env [[3 / (8 * pi)]]"
  by (simp add: inverts_def square_def mat_mul_def identity_def)

theorem round_trip_witness:
  "valid_input 0 0 1 1 1 \<and> zeros_returned sample_env 0 1
   \<and> raised (DHT_init (globals_with_N False 1) sample_env 0 0 1 1 1 False) = None
   \<and> shape [[2::complex]] = (1, 1)
   \<and> call_out (inverse_transform
        (call_obj (transform (obj (DHT_init (globals_with_N False 1) sample_env 0 0 1 1 1 False))
                     [[2]] [[0]]))
        (call_out (transform (obj (DHT_init (globals_with_N False 1) sample_env 0 0 1 1 1 False))
                     [[2]] [[0]]))
        [[0]]) = [[2]]
   \<and> valid_input 1 1 2 1 1 \<and> zeros_returned sample_env 1 2
   \<and> raised (DHT_init (globals_with_N False 2) sample_env 1 1 2 1 1 False) = None
   \<and> globals_with_N False 2 ''N'' = Some (PyInt (int 2))
   \<and> call_out (transform (obj (DHT_init (globals_with_N False 2) sample_env 1 1 2 1 1 False))
        [[1, 0]] [[0, 0]]) ! 0 ! 0 = 0"
proof -
  have r1: "rectangular [[2::complex]]" "shape [[2::complex]] = (1, 1)"
    "shape [[0::complex]] = (1, 1)"
    by (simp_all add: rectangular_def shape_def)
  have r2: "rectangular [[1, 0::complex]]" "shape [[1, 0::complex]] = (1, 2)"
    "shape [[0, 0::complex]] = (1, 2)"
    by (simp_all add: rectangular_def shape_def)
  have i1: "\<forall>A. self_invM (obj (DHT_init (globals_with_N False 1) sample_env 0 0 1 1 1 False))
                  = Some A \<longrightarrow> inverts sample_env A"
    unfolding sample_instance_1(4) using sample_inverts_1 by simp
  have n2: "globals_with_N False 2 ''N'' = Some (PyInt (int 2))" by simp
  from round_trip [OF sample_valid_1(1,2) sample_instance_1(1) r1(1,2,3,3)] i1
  have a: "call_out (inverse_transform
        (call_obj (transform (obj (DHT_init (globals_with_N False 1) sample_env 0 0 1 1 1 False))
                     [[2]] [[0]]))
        (call_out (transform (obj (DHT_init (globals_with_N False 1) sample_env 0 0 1 1 1 False))
                     [[2]] [[0]]))
        [[0]]) = [[2]]"
    by blast
  from round_trip [OF sample_valid_2 sample_instance_2(1) r2(1,2,3,3)] n2
  have b: "call_out (transform (obj (DHT_init (globals_with_N False 2) sample_env 1 1 2 1 1 False))
        [[1, 0]] [[0, 0]]) ! 0 ! 0 = 0"
    by simp
  show ?thesis
    using sample_valid_1(1,2) sample_instance_1(1) r1(2) a
          sample_valid_2 sample_instance_2(1) n2 b
    by (intro conjI)
qed

text \<open>
  The claim as it is written fails. With the globals of the module no instance exists to
  be transformed; and with the name \<open>N\<close> bound to \<open>Nr\<close>, so that the constructor
  returns, the combination \<open>p = 1\<close>, \<open>m = 1\<close> (which is not \<open>p = m - 1\<close>) does not give
  the input back: the row \<open>[1, 0]\<close> comes back as \<open>[25/74, 35/74]\<close>.
\<close>

theorem round_trip_counterexample:
  "raised (DHT_init (hankel_globals False) sample_env 1 1 2 1 1 False) = Some (NameError ''N'')
   \<and> valid_input 1 1 2 1 1 \<and> (1::int) \<noteq> 1 - 1
   \<and> raised (DHT_init (globals_with_N False 2) sample_env 1 1 2 1 1 False) = None
   \<and> call_out (inverse_transform
        (call_obj (transform (obj (DHT_init (globals_with_N False 2) sample_env 1 1 2 1 1 False))
                     [[1, 0]] [[0, 0]]))
        (call_out (transform (obj (DHT_init (globals_with_N False 2) sample_env 1 1 2 1 1 False))
                     [[1, 0]] [[0, 0]]))
        [[0, 0]]) = [[25 / 74, 35 / 74]]"
proof -
  note t = transform_cpu [OF sample_instance_2(2,3), of "[[1, 0]]" "[[0, 0]]"]
  have n: "np_dot [[1, 0]] [[0, 40 * pi / 37], [0, 56 * pi / 37]] [[0, 0]]
             = Inr [[0, 40 * complex_of_real pi / 37]]"
    by (simp add: np_dot_def shape_def mat_mul_def to_complex_def upt_2)
  note it = inverse_transform_cpu [OF sample_instance_2(2,4),
              of "[[0, 40 * complex_of_real pi / 37]]" "[[0, 0]]"]
  have n': "np_dot [[0, 40 * complex_of_real pi / 37]] [[0, 0], [5 / (16 * pi), 7 / (16 * pi)]]
              [[0, 0]] = Inr [[25 / 74, 35 / 74]]"
    by (simp add: np_dot_def shape_def mat_mul_def to_complex_def upt_2)
  have e: "raised (DHT_init (hankel_globals False) sample_env 1 1 2 1 1 False)
             = Some (NameError ''N'')"
    using DHT_init_raised [OF sample_valid_2, of "hankel_globals False" False]
    by (simp add: forward_matrix_NameError)
  have rt: "call_out (inverse_transform
        (call_obj (transform (obj (DHT_init (globals_with_N False 2) sample_env 1 1 2 1 1 False))
                     [[1, 0]] [[0, 0]]))
        (call_out (transform (obj (DHT_init (globals_with_N False 2) sample_env 1 1 2 1 1 False))
                     [[1, 0]] [[0, 0]]))
        [[0, 0]]) = [[25 / 74, 35 / 74]]"
    by (simp only: t n it n' sum.case call.select_convs)
  show ?thesis
    using e sample_valid_2(1) sample_instance_2(1) rt by (intro conjI) simp_all
qed

text \<open>
  The loss does not depend on the values that the library returns. For \<open>p = 1\<close>,
  \<open>m = 1\<close> and \<open>Nr = 2\<close>, whatever the environment is, the two rows \<open>[1, 0]\<close> and
  \<open>[0, 1]\<close> cannot both come back: row \<open>0\<close> of \<open>invM\<close> and column \<open>0\<close> of
  \<open>M\<close> are zero, so every array that comes back is a multiple of row \<open>1\<close> of
  \<open>invM\<close>.
\<close>

lemma unit_rows_not_both_recovered:
  assumes "valid_input 1 1 2 1 rmax" "zeros_returned env 1 2"
    and "raised (DHT_init g env 1 1 2 1 rmax False) = None" "g ''N'' = Some (PyInt 2)"
  defines "s \<equiv> obj (DHT_init g env 1 1 2 1 rmax False)"
  shows "\<not> (call_out (inverse_transform (call_obj (transform s [[1, 0]] [[0, 0]]))
                       (call_out (transform s [[1, 0]] [[0, 0]])) [[0, 0]]) = [[1, 0]]
          \<and> call_out (inverse_transform (call_obj (transform s [[0, 1]] [[0, 0]]))
                         (call_out (transform s [[0, 1]] [[0, 0]])) [[0, 0]]) = [[0, 1]])"
proof -
  note f = DHT_init_fields [OF assms(1,2), where g = g and uc = False, folded s_def]
  have u: "self_use_cuda s = Some False" using f(5) by simp
  obtain c d where invM: "invM_of env 1 1 2 rmax = [[0, 0], [c, d]]"
    by (simp add: invM_of_def inverse_matrix_def alphas_of_def nu_of_def r_of_def Let_def
          upt_2 numeral_2_eq_2)
  have fm: "snd (forward_matrix g env 1 1 (invM_of env 1 1 2 rmax)) = None"
    using assms(3) DHT_init_raised [OF assms(1,2), of g False] by simp
  have N: "g ''N'' = Some (PyInt (int 2))" using assms(4) by simp
  from forward_matrix_pinv_branch [OF _ fm N] f(4)
  obtain P where P: "self_M s = Some (map (\<lambda>row. 0 # row) P)"
    "length P = 2" "\<forall>row \<in> set P. length row = 2 - 1"
    by auto
  from P(2) obtain x y where xy: "P = [x, y]"
    by (auto simp: numeral_2_eq_2 length_Suc_conv)
  with P(3) obtain a b where ab: "x = [a]" "y = [b]"
    by (auto simp: length_Suc_conv)
  have M: "self_M s = Some [[0, a], [0, b]]" using P(1) xy ab by simp
  have I: "self_invM s = Some [[0, 0], [c, d]]" using f(3) invM by simp
  have t: "transform s [[e, h]] [[0, 0]]
             = \<lparr> call_obj = s, call_out = [[0, e * complex_of_real a + h * complex_of_real b]],
                 call_raised = None \<rparr>" for e h
    by (simp add: transform_cpu [OF u M] np_dot_def shape_def mat_mul_def to_complex_def upt_2)
  have it: "inverse_transform s [[0, k]] [[0, 0]]
             = \<lparr> call_obj = s, call_out = [[k * complex_of_real c, k * complex_of_real d]],
                 call_raised = None \<rparr>" for k
    by (simp add: inverse_transform_cpu [OF u I] np_dot_def shape_def mat_mul_def
          to_complex_def upt_2)
  show ?thesis
  proof
    assume "call_out (inverse_transform (call_obj (transform s [[1, 0]] [[0, 0]]))
                       (call_out (transform s [[1, 0]] [[0, 0]])) [[0, 0]]) = [[1, 0]]
          \<and> call_out (inverse_transform (call_obj (transform s [[0, 1]] [[0, 0]]))
                         (call_out (transform s [[0, 1]] [[0, 0]])) [[0, 0]]) = [[0, 1]]"
    then have "complex_of_real a * complex_of_real c = 1"
      "complex_of_real a * complex_of_real d = 0"
      "complex_of_real b * complex_of_real d = 1"
      by (simp_all add: t it)
    then show False by auto
  qed
qed




end
